theory Spec2Isabelle
  imports Main "HOL-Library.Product_Lexorder" "HOL-Library.Sublist"
begin

section \<open>The analysis queue database of lib/cuckoo/core/database.py\<close>

text \<open>
  The store is a record of three tables (tasks, samples, machines), each a list of rows
  in table order, together with the messages the module logger has received. Every
  operation of class Database takes the store and returns the store it leaves behind.
  A failure of the database itself (an SQLAlchemyError that no constraint of the model
  explains: a lost connection, a lock timeout, a uniqueness conflict in the tags table)
  is an input of the operation: the predicate \<open>F\<close> says at which point of the call the
  database raises. The wall clock (datetime.now()) is the parameter \<open>now\<close>.

  The tags table and its two association tables are folded into the rows: a task and a
  machine carry the list of the names of their tags. The statistics columns of a task,
  which no operation modelled here reads or writes, are left out.
\<close>

subsection \<open>Timestamps\<close>

record datetime =
  dt_year :: nat
  dt_month :: nat
  dt_day :: nat
  dt_hour :: nat
  dt_minute :: nat
  dt_second :: nat
  dt_microsecond :: nat


text \<open>datetime.utcfromtimestamp(0), the epoch sentinel.\<close>

definition utcfromtimestamp0 :: datetime where
  "utcfromtimestamp0 = \<lparr>dt_year = 1970, dt_month = 1, dt_day = 1, dt_hour = 0,
     dt_minute = 0, dt_second = 0, dt_microsecond = 0\<rparr>"

subsection \<open>Rows\<close>

text \<open>
  The eight values of the status column, and TASK_DISTRIBUTED_COMPLETED, which is only
  ever an argument of set_status.
\<close>

datatype status =
    TASK_PENDING | TASK_RUNNING | TASK_COMPLETED | TASK_RECOVERED | TASK_REPORTED
  | TASK_FAILED_ANALYSIS | TASK_FAILED_PROCESSING | TASK_FAILED_REPORTING
  | TASK_DISTRIBUTED_COMPLETED

record machine =
  m_id :: nat
  m_name :: string
  m_label :: string
  m_ip :: string
  m_platform :: string
  m_tags :: "string list"
  m_interface :: "string option"
  m_snapshot :: "string option"
  m_locked :: bool
  m_locked_changed_on :: "datetime option"
  m_status :: "string option"
  m_status_changed_on :: "datetime option"
  m_resultserver_ip :: string
  m_resultserver_port :: string

record sample =
  s_id :: nat
  s_file_size :: nat
  s_file_type :: "string option"
  s_md5 :: string
  s_crc32 :: string
  s_sha1 :: string
  s_sha256 :: string
  s_sha512 :: string
  s_ssdeep :: "string option"
  s_parent :: "nat option"

record task =
  t_id :: nat
  t_target :: string
  t_category :: string
  t_timeout :: int
  t_priority :: int
  t_custom :: "string option"
  t_machine :: "string option"
  t_package :: "string option"
  t_tags :: "string list"
  t_options :: "string option"
  t_platform :: "string option"
  t_memory :: bool
  t_enforce_timeout :: bool
  t_clock :: datetime
  t_added_on :: datetime
  t_started_on :: "datetime option"
  t_completed_on :: "datetime option"
  t_status :: status
  t_sample_id :: "nat option"
  t_shrike_url :: "string option"
  t_shrike_refer :: "string option"
  t_shrike_msg :: "string option"
  t_shrike_sid :: "int option"
  t_parent_id :: "nat option"

subsection \<open>The store, the logger and the failures of the database\<close>

datatype level = DEBUG | INFO | WARNING | ERROR

record db =
  tasks :: "task list"
  samples :: "sample list"
  machines :: "machine list"
  logged :: "(level \<times> string) list"

definition log_msg :: "level \<Rightarrow> string \<Rightarrow> db \<Rightarrow> db" where
  "log_msg l s d = d\<lparr>logged := logged d @ [(l, s)]\<rparr>"

text \<open>The points of a call at which the database may raise an SQLAlchemyError.\<close>

datatype fault =
    SetStatus | FetchQuery | FetchRefresh | LockQuery | LockCommit
  | SampleCommit | SampleReread | TagQuery | TaskCommit | ViewTask | RescheduleCommit

type_synonym faults = "fault \<Rightarrow> bool"

text \<open>The exceptions that leave an operation.\<close>

datatype exn =
    CuckooOperationalError string | SQLAlchemyError | IOError | AttributeError
  | UnboundLocalError

text \<open>Query.first(): the first row of the result, or None.\<close>

definition first :: "'a list \<Rightarrow> 'a option" where
  "first xs = (case xs of [] \<Rightarrow> None | x # _ \<Rightarrow> Some x)"

text \<open>session.query(Task).get(task_id): the row with that primary key.\<close>

definition get_task :: "db \<Rightarrow> nat \<Rightarrow> task option" where
  "get_task d i = first (filter (\<lambda>t. t_id t = i) (tasks d))"

text \<open>Writing a loaded row back on commit: the row with its primary key is replaced.\<close>

definition put_task :: "task \<Rightarrow> db \<Rightarrow> db" where
  "put_task row d = d\<lparr>tasks := map (\<lambda>t. if t_id t = t_id row then row else t) (tasks d)\<rparr>"

text \<open>
  An INTEGER PRIMARY KEY column of a new row: one more than the largest key of the
  table, 1 in an empty table.
\<close>

definition next_id :: "nat list \<Rightarrow> nat" where
  "next_id ids = Suc (fold max ids 0)"

subsection \<open>Database.set_status\<close>

definition set_status :: "faults \<Rightarrow> datetime \<Rightarrow> nat \<Rightarrow> status \<Rightarrow> db \<Rightarrow> db" where
  "set_status F now task_id st d =
     (if F SetStatus then log_msg DEBUG ''Database error setting status'' d
      else case get_task d task_id of
        None \<Rightarrow> d
      | Some row \<Rightarrow>
          let row1 = (if st \<noteq> TASK_DISTRIBUTED_COMPLETED then row\<lparr>t_status := st\<rparr> else row);
              row2 = (if st = TASK_RUNNING then row1\<lparr>t_started_on := Some now\<rparr>
                      else if st = TASK_COMPLETED \<or> st = TASK_DISTRIBUTED_COMPLETED
                        then row1\<lparr>t_completed_on := Some now\<rparr>
                      else row1)
          in put_task row2 d)"

subsection \<open>Database.fetch\<close>




subsection \<open>Files and submissions\<close>

text \<open>
  The objects of lib/cuckoo/common/objects.py that add receives. Static is a subclass
  of File, so isinstance(obj, File) holds of a Static object too.
\<close>

datatype obj = File string | URL string | PCAP string | Static string

text \<open>
  What class File computes from the bytes at a path: the size, the type that libmagic
  reports, the digests. The file system maps a path to the identity of the file there;
  reading a path with no file raises IOError.
\<close>

record file_info =
  f_size :: nat
  f_type :: string
  f_md5 :: string
  f_crc32 :: string
  f_sha1 :: string
  f_sha256 :: string
  f_sha512 :: string
  f_ssdeep :: "string option"

type_synonym filesystem = "string \<Rightarrow> file_info option"

text \<open>The clock argument of add: None, a str or unicode, or a datetime.\<close>

datatype clock_arg = ClockNone | ClockStr string | ClockTime datetime

text \<open>
  The keyword arguments of add. A numeric argument is None when the caller passes None
  or the empty string.
\<close>

record submission =
  a_timeout :: "int option"
  a_package :: "string option"
  a_options :: "string option"
  a_priority :: "int option"
  a_custom :: "string option"
  a_machine :: "string option"
  a_platform :: "string option"
  a_tags :: "string option"
  a_memory :: bool
  a_enforce_timeout :: bool
  a_clock :: clock_arg
  a_shrike_url :: "string option"
  a_shrike_msg :: "string option"
  a_shrike_sid :: "int option"
  a_shrike_refer :: "string option"
  a_parent_id :: "nat option"
  a_sample_parent_id :: "nat option"
  a_static :: bool

text \<open>Truth values of Python: None, the empty string and 0 are false.\<close>

definition truthy :: "string option \<Rightarrow> bool" where
  "truthy v = (case v of None \<Rightarrow> False | Some s \<Rightarrow> s \<noteq> [])"

definition int_or :: "int \<Rightarrow> int option \<Rightarrow> int" where
  "int_or dflt v = (case v of None \<Rightarrow> dflt | Some n \<Rightarrow> if n = 0 then dflt else n)"

definition nat_truthy :: "nat option \<Rightarrow> nat option" where
  "nat_truthy v = (case v of None \<Rightarrow> None | Some n \<Rightarrow> if n = 0 then None else Some n)"

subsection \<open>datetime.strptime(clock, "%m-%d-%Y %H:%M:%S")\<close>

text \<open>
  The library function, after Lib/_strptime.py of CPython 2.7. The format becomes the
  regular expression
  \<^verbatim>\<open>(1[0-2]|0[1-9]|[1-9])-(3[0-1]|[1-2]\d|0[1-9]|[1-9]| [1-9])-(\d\d\d\d)\s+\<close>
  \<^verbatim>\<open>(2[0-3]|[0-1]\d|\d):([0-5]\d|\d):(6[0-1]|[0-5]\d|\d)\<close>
  which has to match a prefix of the string; text left over after the match, a date
  that the calendar does not have and a second above 59 raise ValueError (the result
  None). A field in front of a separator is read with two characters when the separator
  follows them, with one otherwise.
\<close>

definition in_range :: "char \<Rightarrow> char \<Rightarrow> char \<Rightarrow> bool" where
  "in_range lo hi c = ((of_char lo :: nat) \<le> of_char c \<and> (of_char c :: nat) \<le> of_char hi)"

definition is_digit :: "char \<Rightarrow> bool" where
  "is_digit c = in_range CHR ''0'' CHR ''9'' c"

definition is_space :: "char \<Rightarrow> bool" where
  "is_space c = (c \<in> set [CHR '' '', CHR 0x09, CHR 0x0A, CHR 0x0B, CHR 0x0C, CHR 0x0D])"

definition digit_val :: "char \<Rightarrow> nat" where
  "digit_val c = of_char c - of_char CHR ''0''"

definition num2 :: "char \<Rightarrow> char \<Rightarrow> nat" where
  "num2 c1 c2 = 10 * (if c1 = CHR '' '' then 0 else digit_val c1) + digit_val c2"

definition m_two :: "char \<Rightarrow> char \<Rightarrow> bool" where
  "m_two c1 c2 = (c1 = CHR ''1'' \<and> in_range CHR ''0'' CHR ''2'' c2 \<or>
                  c1 = CHR ''0'' \<and> in_range CHR ''1'' CHR ''9'' c2)"

definition d_two :: "char \<Rightarrow> char \<Rightarrow> bool" where
  "d_two c1 c2 = (c1 = CHR ''3'' \<and> in_range CHR ''0'' CHR ''1'' c2 \<or>
                  in_range CHR ''1'' CHR ''2'' c1 \<and> is_digit c2 \<or>
                  c1 = CHR ''0'' \<and> in_range CHR ''1'' CHR ''9'' c2 \<or>
                  c1 = CHR '' '' \<and> in_range CHR ''1'' CHR ''9'' c2)"

definition H_two :: "char \<Rightarrow> char \<Rightarrow> bool" where
  "H_two c1 c2 = (c1 = CHR ''2'' \<and> in_range CHR ''0'' CHR ''3'' c2 \<or>
                  in_range CHR ''0'' CHR ''1'' c1 \<and> is_digit c2)"

definition M_two :: "char \<Rightarrow> char \<Rightarrow> bool" where
  "M_two c1 c2 = (in_range CHR ''0'' CHR ''5'' c1 \<and> is_digit c2)"

definition S_two :: "char \<Rightarrow> char \<Rightarrow> bool" where
  "S_two c1 c2 = (c1 = CHR ''6'' \<and> in_range CHR ''0'' CHR ''1'' c2 \<or>
                  in_range CHR ''0'' CHR ''5'' c1 \<and> is_digit c2)"

fun field_sep ::
  "(char \<Rightarrow> char \<Rightarrow> bool) \<Rightarrow> (char \<Rightarrow> bool) \<Rightarrow> char \<Rightarrow> string \<Rightarrow> (nat \<times> string) option" where
  "field_sep two one sep (c1 # c2 # c3 # rest) =
     (if two c1 c2 \<and> c3 = sep then Some (num2 c1 c2, rest)
      else if one c1 \<and> c2 = sep then Some (digit_val c1, c3 # rest)
      else None)"
| "field_sep two one sep [c1, c2] =
     (if one c1 \<and> c2 = sep then Some (digit_val c1, []) else None)"
| "field_sep two one sep [c1] = None"
| "field_sep two one sep [] = None"

fun field_year :: "string \<Rightarrow> (nat \<times> string) option" where
  "field_year (c1 # c2 # c3 # c4 # rest) =
     (if is_digit c1 \<and> is_digit c2 \<and> is_digit c3 \<and> is_digit c4
      then Some (1000 * digit_val c1 + 100 * digit_val c2 + 10 * digit_val c3 + digit_val c4,
                 rest)
      else None)"
| "field_year [c1, c2, c3] = None"
| "field_year [c1, c2] = None"
| "field_year [c1] = None"
| "field_year [] = None"

fun spaces :: "string \<Rightarrow> string option" where
  "spaces [] = None"
| "spaces (c # rest) = (if is_space c then Some (dropWhile is_space rest) else None)"

fun field_end :: "string \<Rightarrow> nat option" where
  "field_end [c1, c2] = (if S_two c1 c2 then Some (num2 c1 c2) else None)"
| "field_end [c1] = (if is_digit c1 then Some (digit_val c1) else None)"
| "field_end [] = None"
| "field_end (c1 # c2 # c3 # rest) = None"

definition is_leap :: "nat \<Rightarrow> bool" where
  "is_leap y = (y mod 4 = 0 \<and> (y mod 100 \<noteq> 0 \<or> y mod 400 = 0))"

definition days_in_month :: "nat \<Rightarrow> nat \<Rightarrow> nat" where
  "days_in_month y m =
     (if m = 2 then (if is_leap y then 29 else 28)
      else if m = 4 \<or> m = 6 \<or> m = 9 \<or> m = 11 then 30 else 31)"

definition strptime :: "string \<Rightarrow> datetime option" where
  "strptime s =
     (case field_sep m_two (in_range CHR ''1'' CHR ''9'') CHR ''-'' s of
        None \<Rightarrow> None
      | Some (mo, s1) \<Rightarrow>
     (case field_sep d_two (in_range CHR ''1'' CHR ''9'') CHR ''-'' s1 of
        None \<Rightarrow> None
      | Some (dy, s2) \<Rightarrow>
     (case field_year s2 of
        None \<Rightarrow> None
      | Some (yr, s3) \<Rightarrow>
     (case spaces s3 of
        None \<Rightarrow> None
      | Some s4 \<Rightarrow>
     (case field_sep H_two is_digit CHR '':'' s4 of
        None \<Rightarrow> None
      | Some (hr, s5) \<Rightarrow>
     (case field_sep M_two is_digit CHR '':'' s5 of
        None \<Rightarrow> None
      | Some (mi, s6) \<Rightarrow>
     (case field_end s6 of
        None \<Rightarrow> None
      | Some sc \<Rightarrow>
          if 1 \<le> yr \<and> dy \<le> days_in_month yr mo \<and> sc \<le> 59
          then Some \<lparr>dt_year = yr, dt_month = mo, dt_day = dy, dt_hour = hr,
                      dt_minute = mi, dt_second = sc, dt_microsecond = 0\<rparr>
          else None)))))))"

subsection \<open>Tag strings\<close>

text \<open>str.split(","): the pieces between the commas, at least one piece.\<close>

fun split_comma :: "string \<Rightarrow> string list" where
  "split_comma [] = [[]]"
| "split_comma (c # cs) =
     (if c = CHR '','' then [] # split_comma cs
      else (case split_comma cs of
              [] \<Rightarrow> [[c]]
            | w # ws \<Rightarrow> (c # w) # ws))"


text \<open>tags.replace(" ", "").split(","), the names a tags argument stands for.\<close>

definition tag_names :: "string option \<Rightarrow> string list" where
  "tag_names tags =
     (case tags of
        None \<Rightarrow> []
      | Some s \<Rightarrow> if s = [] then [] else split_comma (filter (\<lambda>c. c \<noteq> CHR '' '') s))"

subsection \<open>The samples table\<close>

text \<open>
  Sample(md5, crc32, sha1, sha256, sha512, file_size, file_type, ssdeep, parent) with the
  primary key the insert will give it. The constructor sets file_type, ssdeep and parent
  only when the argument is true.
\<close>

definition new_sample :: "file_info \<Rightarrow> nat option \<Rightarrow> db \<Rightarrow> sample" where
  "new_sample fi parent d =
     \<lparr>s_id = next_id (map s_id (samples d)),
      s_file_size = f_size fi,
      s_file_type = (if f_type fi \<noteq> [] then Some (f_type fi) else None),
      s_md5 = f_md5 fi, s_crc32 = f_crc32 fi, s_sha1 = f_sha1 fi,
      s_sha256 = f_sha256 fi, s_sha512 = f_sha512 fi,
      s_ssdeep = (if truthy (f_ssdeep fi) then f_ssdeep fi else None),
      s_parent = nat_truthy parent\<rparr>"

text \<open>
  The constraints of the table that an insert can violate: file_type is not nullable,
  and the index sha256_index is unique. Either raises IntegrityError on commit.
\<close>

definition integrity_error :: "sample \<Rightarrow> db \<Rightarrow> bool" where
  "integrity_error s d =
     (s_file_type s = None \<or> s_sha256 s \<in> set (map s_sha256 (samples d)))"

text \<open>session.query(Sample).filter_by(md5=file_md5).first().\<close>

definition sample_by_md5 :: "string \<Rightarrow> db \<Rightarrow> sample option" where
  "sample_by_md5 md5 d = first (filter (\<lambda>s. s_md5 s = md5) (samples d))"

subsection \<open>Database.register_sample\<close>

definition obj_path :: "obj \<Rightarrow> string option" where
  "obj_path ob = (case ob of File p \<Rightarrow> Some p | PCAP p \<Rightarrow> Some p | Static p \<Rightarrow> Some p
                  | URL u \<Rightarrow> None)"

definition register_sample :: "faults \<Rightarrow> filesystem \<Rightarrow> obj \<Rightarrow> db \<Rightarrow> (exn + nat option) \<times> db" where
  "register_sample F fs ob d =
     (case obj_path ob of
        None \<Rightarrow> (Inr None, d)
      | Some p \<Rightarrow>
     (case fs p of
        None \<Rightarrow> (Inl IOError, d)
      | Some fi \<Rightarrow>
          let sample = new_sample fi None d in
          if F SampleCommit then (Inr None, log_msg DEBUG ''Database error adding task'' d)
          else if integrity_error sample d then
            (if F SampleReread
             then (Inr None, log_msg DEBUG ''Error querying sample for hash'' d)
             else case sample_by_md5 (f_md5 fi) d of
                    None \<Rightarrow> (Inl AttributeError, d)
                  | Some s \<Rightarrow> (Inr (Some (s_id s)), d))
          else (Inr (Some (s_id sample)), d\<lparr>samples := samples d @ [sample]\<rparr>)))"

subsection \<open>Database.add\<close>

text \<open>
  Lines 956 to 985: the sample of a File, PCAP or Static object is inserted and
  committed in a transaction of its own. The result is Inl when add returns or raises
  here, Inr with the id of the sample row when it goes on.
\<close>

definition add_sample ::
  "faults \<Rightarrow> file_info \<Rightarrow> nat option \<Rightarrow> db \<Rightarrow> ((exn + nat option) + nat) \<times> db" where
  "add_sample F fi parent d =
     (let sample = new_sample fi parent d in
      if F SampleCommit then (Inl (Inr None), log_msg DEBUG ''Database error adding task'' d)
      else if integrity_error sample d then
        (if F SampleReread
         then (Inl (Inr None), log_msg DEBUG ''Error querying sample for hash'' d)
         else case sample_by_md5 (f_md5 fi) d of
                None \<Rightarrow> (Inl (Inl AttributeError), d)
              | Some s \<Rightarrow> (Inr (s_id s), d))
      else (Inr (s_id sample), d\<lparr>samples := samples d @ [sample]\<rparr>))"

text \<open>obj.__class__.__name__.lower().\<close>

definition class_name_lower :: "obj \<Rightarrow> string" where
  "class_name_lower ob = (case ob of File p \<Rightarrow> ''file'' | URL u \<Rightarrow> ''url''
                          | PCAP p \<Rightarrow> ''pcap'' | Static p \<Rightarrow> ''static'')"

text \<open>Lines 1025 to 1036: the clock of the task, and whether the warning is logged.\<close>

definition resolve_clock :: "clock_arg \<Rightarrow> datetime \<times> bool" where
  "resolve_clock c =
     (case c of
        ClockNone \<Rightarrow> (utcfromtimestamp0, False)
      | ClockTime t \<Rightarrow> (t, False)
      | ClockStr s \<Rightarrow>
          if s = [] then (utcfromtimestamp0, False)
          else (case strptime s of
                  Some t \<Rightarrow> (t, False)
                | None \<Rightarrow> (utcfromtimestamp0, True)))"

definition clock_warning :: string where
  "clock_warning = ''The date you specified has an invalid format, using current timestamp.''"

text \<open>
  Lines 1005 to 1036: the task row with the primary key i that the insert gives it. The
  status column takes its server default, pending; added_on its default, the time of
  the insert. The arguments are the target, the sample id, the tags after the 64_bit
  rule and the started_on stamp of lines 998 to 1000.
\<close>

definition new_task ::
  "nat \<Rightarrow> datetime \<Rightarrow> obj \<Rightarrow> string \<Rightarrow> nat option \<Rightarrow> string option \<Rightarrow> datetime option \<Rightarrow>
   submission \<Rightarrow> task" where
  "new_task i now ob target sid tags started a =
     \<lparr>t_id = i,
      t_target = target,
      t_category = class_name_lower ob,
      t_timeout = int_or 0 (a_timeout a),
      t_priority = int_or 1 (a_priority a),
      t_custom = a_custom a,
      t_machine = a_machine a,
      t_package = a_package a,
      t_tags = tag_names tags,
      t_options = a_options a,
      t_platform = a_platform a,
      t_memory = a_memory a,
      t_enforce_timeout = a_enforce_timeout a,
      t_clock = fst (resolve_clock (a_clock a)),
      t_added_on = now,
      t_started_on = started,
      t_completed_on = None,
      t_status = TASK_PENDING,
      t_sample_id = sid,
      t_shrike_url = a_shrike_url a,
      t_shrike_refer = a_shrike_refer a,
      t_shrike_msg = a_shrike_msg a,
      t_shrike_sid = a_shrike_sid a,
      t_parent_id = a_parent_id a\<rparr>"

text \<open>
  Lines 1005 to 1050: the tags are looked up, the clock is resolved (with its warning),
  the row is inserted and committed.
\<close>

definition add_task ::
  "faults \<Rightarrow> datetime \<Rightarrow> obj \<Rightarrow> string \<Rightarrow> nat option \<Rightarrow> string option \<Rightarrow> datetime option \<Rightarrow>
   submission \<Rightarrow> db \<Rightarrow> (exn + nat option) \<times> db" where
  "add_task F now ob target sid tags started a d =
     (if tag_names tags \<noteq> [] \<and> F TagQuery then (Inl SQLAlchemyError, d)
      else
        let d1 = (if snd (resolve_clock (a_clock a)) then log_msg WARNING clock_warning d
                  else d);
            row = new_task (next_id (map t_id (tasks d1))) now ob target sid tags started a
        in if F TaskCommit then (Inr None, log_msg DEBUG ''Database error adding task'' d1)
           else (Inr (Some (t_id row)), d1\<lparr>tasks := tasks d1 @ [row]\<rparr>))"

text \<open>"PE32+" in file_type.\<close>

definition is_pe32plus :: "string \<Rightarrow> bool" where
  "is_pe32plus file_type = sublist ''PE32+'' file_type"

text \<open>Lines 989 to 993: the 64_bit tag of a 64-bit binary with no machine asked for.\<close>

definition force_64_bit :: "string \<Rightarrow> string option \<Rightarrow> string option \<Rightarrow> string option" where
  "force_64_bit file_type machine tags =
     (if is_pe32plus file_type \<and> \<not> truthy machine
      then (case tags of
              None \<Rightarrow> Some ''64_bit''
            | Some s \<Rightarrow> if s \<noteq> [] then Some (s @ '',64_bit'') else Some ''64_bit'')
      else tags)"

text \<open>
  Lines 956 to 1000, for the object at path p of a File, PCAP or Static; started is the
  started_on stamp that a PCAP or Static task gets at once.
\<close>

definition add_file ::
  "faults \<Rightarrow> filesystem \<Rightarrow> datetime \<Rightarrow> obj \<Rightarrow> string \<Rightarrow> datetime option \<Rightarrow> submission \<Rightarrow> db
   \<Rightarrow> (exn + nat option) \<times> db" where
  "add_file F fs now ob p started a d =
     (case fs p of
        None \<Rightarrow> (Inl IOError, d)
      | Some fi \<Rightarrow>
     (case add_sample F fi (a_sample_parent_id a) d of
        (Inl r, d1) \<Rightarrow> (r, d1)
      | (Inr sid, d1) \<Rightarrow>
          add_task F now ob p (Some sid) (force_64_bit (f_type fi) (a_machine a) (a_tags a))
            started a d1))"

definition add :: "faults \<Rightarrow> filesystem \<Rightarrow> datetime \<Rightarrow> obj \<Rightarrow> submission \<Rightarrow> db \<Rightarrow> (exn + nat option) \<times> db" where
  "add F fs now ob a d =
     (case ob of
        URL u \<Rightarrow> add_task F now ob u None (a_tags a) None a d
      | File p \<Rightarrow> add_file F fs now ob p None a d
      | PCAP p \<Rightarrow> add_file F fs now ob p (Some now) a d
      | Static p \<Rightarrow> add_file F fs now ob p (Some now) a d)"

subsection \<open>The submission variants\<close>

text \<open>
  add_path, add_url, add_pcap and add_static pass their arguments to add by position.
  add_path does not pass its argument static on, and add_pcap and add_url have neither
  static nor sample_parent_id, so add sees the defaults of these; add_static passes its
  argument static (True unless the caller says otherwise) in the position of
  sample_parent_id.
\<close>

definition add_path ::
  "faults \<Rightarrow> filesystem \<Rightarrow> datetime \<Rightarrow> string option \<Rightarrow> submission \<Rightarrow> db \<Rightarrow> (exn + nat option) \<times> db" where
  "add_path F fs now file_path a d =
     (case file_path of
        None \<Rightarrow> (Inr None, log_msg WARNING ''File does not exist'' d)
      | Some p \<Rightarrow>
          if p = [] \<or> fs p = None then (Inr None, log_msg WARNING ''File does not exist'' d)
          else add F fs now (File p)
                 (a\<lparr>a_timeout := Some (int_or 0 (a_timeout a)),
                    a_priority := Some (int_or 1 (a_priority a)),
                    a_static := False\<rparr>) d)"




text \<open>The defaults of the keyword arguments of add_path, add_url and add_pcap.\<close>

definition defaults :: submission where
  "defaults =
     \<lparr>a_timeout = Some 0, a_package = Some [], a_options = Some [], a_priority = Some 1,
      a_custom = Some [], a_machine = Some [], a_platform = Some [], a_tags = None,
      a_memory = False, a_enforce_timeout = False, a_clock = ClockNone,
      a_shrike_url = None, a_shrike_msg = None, a_shrike_sid = None,
      a_shrike_refer = None, a_parent_id = None, a_sample_parent_id = None,
      a_static = False\<rparr>"

subsection \<open>Database.view_task and Database.reschedule\<close>







subsection \<open>Database.lock_machine\<close>

text \<open>
  The arguments label and platform are None or a string; tags is the list of the names
  of the Tag objects passed (None is the empty list). The query keeps the machines with
  the label, with the platform and with each of the tags, whichever are given.
\<close>

definition candidates :: "string option \<Rightarrow> string option \<Rightarrow> string list \<Rightarrow> db \<Rightarrow> machine list" where
  "candidates label platform tags d =
     (let ms0 = machines d;
          ms1 = (if truthy label then filter (\<lambda>m. Some (m_label m) = label) ms0 else ms0);
          ms2 = (if truthy platform then filter (\<lambda>m. Some (m_platform m) = platform) ms1
                 else ms1)
      in fold (\<lambda>tag ms. filter (\<lambda>m. tag \<in> set (m_tags m)) ms) tags ms2)"

definition put_machine :: "machine \<Rightarrow> db \<Rightarrow> db" where
  "put_machine row d =
     d\<lparr>machines := map (\<lambda>m. if m_id m = m_id row then row else m) (machines d)\<rparr>"

definition lock_machine ::
  "faults \<Rightarrow> datetime \<Rightarrow> string option \<Rightarrow> string option \<Rightarrow> string list \<Rightarrow> db
   \<Rightarrow> (exn + machine option) \<times> db" where
  "lock_machine F now label platform tags d =
     (if truthy label \<and> truthy platform
      then (Inr None, log_msg ERROR ''You can select machine only by label or by platform.'' d)
      else if truthy label \<and> tags \<noteq> []
      then (Inr None, log_msg ERROR ''You can select machine only by label or by tags.'' d)
      else if F LockQuery then (Inr None, log_msg DEBUG ''Database error locking machine'' d)
      else if candidates label platform tags d = []
      then (Inl (CuckooOperationalError ''No machines match selection criteria.''), d)
      else case first (filter (\<lambda>m. \<not> m_locked m) (candidates label platform tags d)) of
        None \<Rightarrow> (Inr None, d)
      | Some m \<Rightarrow>
          if F LockCommit then (Inr None, log_msg DEBUG ''Database error locking machine'' d)
          else
            let m' = m\<lparr>m_locked := True, m_locked_changed_on := Some now\<rparr>
            in (Inr (Some m'), put_machine m' d))"

subsection \<open>The transition table of the specification\<close>

text \<open>
  This definition follows the words of the specification, not the code: pending goes to
  running, running to completed or failed_analysis, completed to reported,
  failed_processing or failed_reporting.
\<close>

definition spec_transition :: "status \<Rightarrow> status \<Rightarrow> bool" where
  "spec_transition a b =
     (a = TASK_PENDING \<and> b = TASK_RUNNING \<or>
      a = TASK_RUNNING \<and> (b = TASK_COMPLETED \<or> b = TASK_FAILED_ANALYSIS) \<or>
      a = TASK_COMPLETED \<and>
        (b = TASK_REPORTED \<or> b = TASK_FAILED_PROCESSING \<or> b = TASK_FAILED_REPORTING))"

subsection \<open>Stores and inputs that the examples use\<close>

definition no_faults :: faults where
  "no_faults = (\<lambda>p. False)"

definition empty_db :: db where
  "empty_db = \<lparr>tasks = [], samples = [], machines = [], logged = []\<rparr>"

definition noon :: datetime where
  "noon = \<lparr>dt_year = 2024, dt_month = 6, dt_day = 1, dt_hour = 12, dt_minute = 0,
            dt_second = 0, dt_microsecond = 0\<rparr>"

definition no_files :: filesystem where
  "no_files = (\<lambda>p. None)"

text \<open>The task that add_url makes of a URL in the empty store, with the defaults.\<close>

definition url_task :: task where
  "url_task =
     \<lparr>t_id = 1, t_target = ''http://example.org/'', t_category = ''url'', t_timeout = 0,
      t_priority = 1, t_custom = Some [], t_machine = Some [], t_package = Some [],
      t_tags = [], t_options = Some [], t_platform = Some [], t_memory = False,
      t_enforce_timeout = False, t_clock = utcfromtimestamp0, t_added_on = noon,
      t_started_on = None, t_completed_on = None, t_status = TASK_PENDING,
      t_sample_id = None, t_shrike_url = None, t_shrike_refer = None,
      t_shrike_msg = None, t_shrike_sid = None, t_parent_id = None\<rparr>"

subsection \<open>What set_status writes into a row\<close>

definition set_status_row :: "datetime \<Rightarrow> status \<Rightarrow> task \<Rightarrow> task" where
  "set_status_row now st row =
     row\<lparr>t_status := (if st = TASK_DISTRIBUTED_COMPLETED then t_status row else st),
         t_started_on := (if st = TASK_RUNNING then Some now else t_started_on row),
         t_completed_on := (if st = TASK_COMPLETED \<or> st = TASK_DISTRIBUTED_COMPLETED
                            then Some now else t_completed_on row)\<rparr>"

text \<open>Two machines, as add_machine stores them: a Windows guest with a tag, a Linux guest.\<close>

definition win_machine :: machine where
  "win_machine =
     \<lparr>m_id = 1, m_name = ''win7x64'', m_label = ''win7x64'', m_ip = ''192.168.56.101'',
      m_platform = ''windows'', m_tags = [''x64''], m_interface = None, m_snapshot = None,
      m_locked = False, m_locked_changed_on = None, m_status = None,
      m_status_changed_on = None, m_resultserver_ip = ''192.168.56.1'',
      m_resultserver_port = ''2042''\<rparr>"

definition linux_machine :: machine where
  "linux_machine =
     \<lparr>m_id = 2, m_name = ''ubuntu'', m_label = ''ubuntu'', m_ip = ''192.168.56.102'',
      m_platform = ''linux'', m_tags = [], m_interface = None, m_snapshot = None,
      m_locked = False, m_locked_changed_on = None, m_status = None,
      m_status_changed_on = None, m_resultserver_ip = ''192.168.56.1'',
      m_resultserver_port = ''2042''\<rparr>"

definition two_machines :: db where
  "two_machines = empty_db\<lparr>machines := [win_machine, linux_machine]\<rparr>"

subsection \<open>The selection criteria of lock_machine as a predicate on a machine\<close>

text \<open>
  filter_by(label=label), filter_by(platform=platform) and one
  filter(Machine.tags.any(name=tag.name)) for each tag, each applied when its argument
  is given, keep the machines that meet all the criteria given.
\<close>

definition meets :: "string option \<Rightarrow> string option \<Rightarrow> string list \<Rightarrow> machine \<Rightarrow> bool" where
  "meets label platform tags m =
     ((truthy label \<longrightarrow> Some (m_label m) = label) \<and>
      (truthy platform \<longrightarrow> Some (m_platform m) = platform) \<and>
      set tags \<subseteq> set (m_tags m))"

subsection \<open>The rows fetch chooses from, as a predicate on a task\<close>


subsection \<open>Submitting URLs and claiming tasks in a row\<close>



text \<open>A 64-bit Windows executable at /tmp/a.exe, and nothing else on the disk.\<close>

definition exe_info :: file_info where
  "exe_info =
     \<lparr>f_size = 4096, f_type = ''PE32+ executable (GUI) x86-64, for MS Windows'',
      f_md5 = ''md5-of-a'', f_crc32 = ''crc32-of-a'', f_sha1 = ''sha1-of-a'',
      f_sha256 = ''sha256-of-a'', f_sha512 = ''sha512-of-a'', f_ssdeep = None\<rparr>"

definition one_file :: filesystem where
  "one_file = (\<lambda>p. if p = ''/tmp/a.exe'' then Some exe_info else None)"

text \<open>The database failing at the commit of the task row, and nowhere else.\<close>

definition task_commit_fails :: faults where
  "task_commit_fails = (\<lambda>p. p = TaskCommit)"

text \<open>
  Two files of different content whose MD5 digests collide: every digest but the MD5
  differs.
\<close>

definition first_info :: file_info where
  "first_info =
     \<lparr>f_size = 128, f_type = ''data'', f_md5 = ''md5-shared'', f_crc32 = ''crc32-of-first'',
      f_sha1 = ''sha1-of-first'', f_sha256 = ''sha256-of-first'',
      f_sha512 = ''sha512-of-first'', f_ssdeep = None\<rparr>"

definition second_info :: file_info where
  "second_info =
     \<lparr>f_size = 128, f_type = ''data'', f_md5 = ''md5-shared'', f_crc32 = ''crc32-of-second'',
      f_sha1 = ''sha1-of-second'', f_sha256 = ''sha256-of-second'',
      f_sha512 = ''sha512-of-second'', f_ssdeep = None\<rparr>"

definition twin_files :: filesystem where
  "twin_files =
     (\<lambda>p. if p = ''/tmp/first.bin'' then Some first_info
          else if p = ''/tmp/second.bin'' then Some second_info
          else None)"

text \<open>The store after both files have been registered, the first one first.\<close>

definition twins_registered :: db where
  "twins_registered =
     snd (register_sample no_faults twin_files (File ''/tmp/second.bin'')
       (snd (register_sample no_faults twin_files (File ''/tmp/first.bin'') empty_db)))"

subsection \<open>Tag names that add can have stored\<close>


text \<open>The task that add_path makes of /tmp/a.exe in the empty store, with the defaults.\<close>

definition file_task :: task where
  "file_task =
     url_task\<lparr>t_target := ''/tmp/a.exe'', t_category := ''file'', t_tags := [''64_bit''],
              t_sample_id := Some 1\<rparr>"

section \<open>Properties\<close>

lemma first_filter_Some:
  "first (filter P xs) = Some x \<Longrightarrow> x \<in> set xs \<and> P x"
  by (induction xs) (auto simp: first_def split: if_splits)


subsection \<open>Rows and their primary keys\<close>

lemma first_filter_map_put:
  "first (filter (\<lambda>t. t_id t = i) xs) = Some row \<Longrightarrow> t_id r = i \<Longrightarrow>
   first (filter (\<lambda>t. t_id t = i) (map (\<lambda>t. if t_id t = t_id r then r else t) xs)) = Some r"
  by (induction xs) (auto simp: first_def split: if_splits)

lemma first_filter_map_other:
  "j \<noteq> t_id r \<Longrightarrow>
   first (filter (\<lambda>t. t_id t = j) (map (\<lambda>t. if t_id t = t_id r then r else t) xs))
     = first (filter (\<lambda>t. t_id t = j) xs)"
  by (induction xs) (auto simp: first_def split: if_splits)

lemma get_task_id: "get_task d i = Some row \<Longrightarrow> t_id row = i"
  unfolding get_task_def by (drule first_filter_Some) simp

lemma get_task_put_same:
  "get_task d i = Some row \<Longrightarrow> t_id r = i \<Longrightarrow> get_task (put_task r d) i = Some r"
  unfolding get_task_def put_task_def using first_filter_map_put [of i "tasks d" row r] by simp

lemma get_task_put_other:
  "j \<noteq> t_id r \<Longrightarrow> get_task (put_task r d) j = get_task d j"
  unfolding get_task_def put_task_def by (simp add: first_filter_map_other)

subsection \<open>set_status\<close>

lemma set_status_eq:
  "\<not> F SetStatus \<Longrightarrow> get_task d i = Some row \<Longrightarrow>
   set_status F now i st d = put_task (set_status_row now st row) d"
  by (cases st) (simp_all add: set_status_def set_status_row_def Let_def)

text \<open>
  C4, as the specification states it, fails: set_status does not look at the status a
  row has. A task that is reported goes back to pending, a step the transition table
  does not have.
\<close>

theorem set_status_regresses:
  "get_task (empty_db\<lparr>tasks := [url_task\<lparr>t_status := TASK_REPORTED\<rparr>]\<rparr>) 1
     = Some (url_task\<lparr>t_status := TASK_REPORTED\<rparr>) \<and>
   \<not> spec_transition TASK_REPORTED TASK_PENDING \<and>
   get_task (set_status no_faults noon 1 TASK_PENDING
              (empty_db\<lparr>tasks := [url_task\<lparr>t_status := TASK_REPORTED\<rparr>]\<rparr>)) 1
     = Some (url_task\<lparr>t_status := TASK_PENDING\<rparr>)"
  by (simp add: set_status_def get_task_def put_task_def first_def empty_db_def url_task_def
      no_faults_def spec_transition_def)

text \<open>
  C4, amended: when the database does not fail, set_status writes the status it is
  given into the row of an existing task whatever status the row has (the alias
  distributed_completed leaves the status as it is), stamps started_on on running and
  completed_on on completed and on the alias, and changes no other row, no sample and no
  machine; for a task id that does not exist it changes nothing.
\<close>

theorem set_status_unconditional:
  assumes "\<not> F SetStatus"
  shows "(get_task d i = None \<longrightarrow> set_status F now i st d = d) \<and>
         (\<forall>row. get_task d i = Some row \<longrightarrow>
            get_task (set_status F now i st d) i =
              Some (row\<lparr>t_status := (if st = TASK_DISTRIBUTED_COMPLETED then t_status row else st),
                        t_started_on := (if st = TASK_RUNNING then Some now else t_started_on row),
                        t_completed_on :=
                          (if st = TASK_COMPLETED \<or> st = TASK_DISTRIBUTED_COMPLETED
                           then Some now else t_completed_on row)\<rparr>) \<and>
            (\<forall>j. j \<noteq> i \<longrightarrow> get_task (set_status F now i st d) j = get_task d j) \<and>
            samples (set_status F now i st d) = samples d \<and>
            machines (set_status F now i st d) = machines d)"
proof (intro conjI allI impI)
  assume "get_task d i = None"
  with assms show "set_status F now i st d = d" by (simp add: set_status_def)
next
  fix row assume g: "get_task d i = Some row"
  have id: "t_id row = i" using g by (rule get_task_id)
  have eq: "set_status F now i st d = put_task (set_status_row now st row) d"
    using assms g by (rule set_status_eq)
  have id': "t_id (set_status_row now st row) = i" using id by (simp add: set_status_row_def)
  show "get_task (set_status F now i st d) i =
              Some (row\<lparr>t_status := (if st = TASK_DISTRIBUTED_COMPLETED then t_status row else st),
                        t_started_on := (if st = TASK_RUNNING then Some now else t_started_on row),
                        t_completed_on :=
                          (if st = TASK_COMPLETED \<or> st = TASK_DISTRIBUTED_COMPLETED
                           then Some now else t_completed_on row)\<rparr>)"
    unfolding eq using get_task_put_same [OF g id'] by (simp add: set_status_row_def)
  show "samples (set_status F now i st d) = samples d" unfolding eq by (simp add: put_task_def)
  show "machines (set_status F now i st d) = machines d" unfolding eq by (simp add: put_task_def)
  fix j assume "j \<noteq> i"
  then show "get_task (set_status F now i st d) j = get_task d j"
    unfolding eq using id' by (simp add: get_task_put_other)
qed

theorem set_status_unconditional_witness:
  "get_task (set_status no_faults noon 1 TASK_RUNNING (empty_db\<lparr>tasks := [url_task]\<rparr>)) 1
     = Some (url_task\<lparr>t_status := TASK_RUNNING, t_started_on := Some noon\<rparr>)"
proof -
  have nf: "\<not> no_faults SetStatus" by (simp add: no_faults_def)
  have g: "get_task (empty_db\<lparr>tasks := [url_task]\<rparr>) 1 = Some url_task"
    by (simp add: get_task_def first_def empty_db_def url_task_def)
  from set_status_unconditional [of no_faults "empty_db\<lparr>tasks := [url_task]\<rparr>" 1 noon
      TASK_RUNNING] nf g
  show ?thesis by (simp add: url_task_def)
qed



subsection \<open>add_path\<close>

text \<open>
  C10: when the file path is None or the empty string, or there is no file at the path,
  add_path returns None (after a logged warning) and creates no Task row and no Sample
  row.
\<close>

theorem add_path_missing_file:
  assumes "file_path = None \<or> file_path = Some [] \<or> (\<exists>p. file_path = Some p \<and> fs p = None)"
  shows "add_path F fs now file_path a d = (Inr None, log_msg WARNING ''File does not exist'' d) \<and>
         tasks (snd (add_path F fs now file_path a d)) = tasks d \<and>
         samples (snd (add_path F fs now file_path a d)) = samples d"
  using assms by (auto simp: add_path_def log_msg_def)

theorem add_path_missing_file_witness:
  "add_path no_faults no_files noon (Some ''/tmp/gone.exe'') defaults empty_db
     = (Inr None, log_msg WARNING ''File does not exist'' empty_db) \<and>
   add_path no_faults no_files noon None defaults empty_db
     = (Inr None, log_msg WARNING ''File does not exist'' empty_db)"
  using add_path_missing_file [of "Some ''/tmp/gone.exe''" no_files no_faults noon defaults empty_db]
        add_path_missing_file [of None no_files no_faults noon defaults empty_db]
  by (simp add: no_files_def)


subsection \<open>lock_machine\<close>

lemma fold_tag_filter:
  "fold (\<lambda>tag ms. filter (\<lambda>m. tag \<in> set (m_tags m)) ms) tags ms
     = filter (\<lambda>m. set tags \<subseteq> set (m_tags m)) ms"
proof (induction tags arbitrary: ms)
  case Nil
  then show ?case by simp
next
  case (Cons t ts)
  have "filter (\<lambda>m. set ts \<subseteq> set (m_tags m)) (filter (\<lambda>m. t \<in> set (m_tags m)) ms)
          = filter (\<lambda>m. set (t # ts) \<subseteq> set (m_tags m)) ms"
    by (induction ms) auto
  with Cons show ?case by simp
qed

lemma candidates_filter:
  "candidates label platform tags d = filter (meets label platform tags) (machines d)"
  unfolding candidates_def Let_def fold_tag_filter meets_def
  by (induction "machines d") (auto simp: filter_filter intro: filter_cong)







text \<open>
  C6: label with platform, or label with tags, is refused at once: None after a logged
  error, every table as it was. Otherwise, when the database does not fail: if no
  machine meets the criteria, lock_machine raises CuckooOperationalError and the store
  is as it was; if some machine meets them and all that do are locked, it returns None
  and the store is as it was.
\<close>

theorem lock_machine_refusals:
  "(truthy label \<and> (truthy platform \<or> tags \<noteq> []) \<longrightarrow>
      (\<exists>msg. lock_machine F now label platform tags d = (Inr None, log_msg ERROR msg d)) \<and>
      machines (snd (lock_machine F now label platform tags d)) = machines d \<and>
      tasks (snd (lock_machine F now label platform tags d)) = tasks d \<and>
      samples (snd (lock_machine F now label platform tags d)) = samples d) \<and>
   (\<not> (truthy label \<and> (truthy platform \<or> tags \<noteq> [])) \<and> \<not> F LockQuery \<and>
    (\<forall>m \<in> set (machines d). \<not> meets label platform tags m) \<longrightarrow>
      lock_machine F now label platform tags d =
        (Inl (CuckooOperationalError ''No machines match selection criteria.''), d)) \<and>
   (\<not> (truthy label \<and> (truthy platform \<or> tags \<noteq> [])) \<and> \<not> F LockQuery \<and>
    (\<exists>m \<in> set (machines d). meets label platform tags m) \<and>
    (\<forall>m \<in> set (machines d). meets label platform tags m \<longrightarrow> m_locked m) \<longrightarrow>
      lock_machine F now label platform tags d = (Inr None, d))"
proof (intro conjI impI)
  assume a: "truthy label \<and> (truthy platform \<or> tags \<noteq> [])"
  then show "\<exists>msg. lock_machine F now label platform tags d = (Inr None, log_msg ERROR msg d)"
    by (auto simp: lock_machine_def)
  from a show "machines (snd (lock_machine F now label platform tags d)) = machines d"
    by (auto simp: lock_machine_def log_msg_def)
  from a show "tasks (snd (lock_machine F now label platform tags d)) = tasks d"
    by (auto simp: lock_machine_def log_msg_def)
  from a show "samples (snd (lock_machine F now label platform tags d)) = samples d"
    by (auto simp: lock_machine_def log_msg_def)
next
  assume a: "\<not> (truthy label \<and> (truthy platform \<or> tags \<noteq> [])) \<and> \<not> F LockQuery \<and>
    (\<forall>m \<in> set (machines d). \<not> meets label platform tags m)"
  then have "candidates label platform tags d = []"
    by (simp add: candidates_filter filter_empty_conv)
  with a show "lock_machine F now label platform tags d =
        (Inl (CuckooOperationalError ''No machines match selection criteria.''), d)"
    by (auto simp: lock_machine_def)
next
  assume a: "\<not> (truthy label \<and> (truthy platform \<or> tags \<noteq> [])) \<and> \<not> F LockQuery \<and>
    (\<exists>m \<in> set (machines d). meets label platform tags m) \<and>
    (\<forall>m \<in> set (machines d). meets label platform tags m \<longrightarrow> m_locked m)"
  then have ne: "candidates label platform tags d \<noteq> []"
    by (auto simp: candidates_filter filter_empty_conv)
  from a have "filter (\<lambda>m. \<not> m_locked m) (candidates label platform tags d) = []"
    by (auto simp: candidates_filter filter_empty_conv)
  with a ne show "lock_machine F now label platform tags d = (Inr None, d)"
    by (auto simp: lock_machine_def first_def)
qed

theorem lock_machine_refusals_witness:
  "lock_machine no_faults noon (Some ''win7x64'') (Some ''windows'') [] two_machines
     = (Inr None, log_msg ERROR ''You can select machine only by label or by platform.''
                    two_machines) \<and>
   lock_machine no_faults noon (Some ''win7x64'') None [''x64''] two_machines
     = (Inr None, log_msg ERROR ''You can select machine only by label or by tags.''
                    two_machines) \<and>
   lock_machine no_faults noon None (Some ''darwin'') [] two_machines
     = (Inl (CuckooOperationalError ''No machines match selection criteria.''), two_machines) \<and>
   lock_machine no_faults noon None (Some ''windows'') []
       (two_machines\<lparr>machines := [win_machine\<lparr>m_locked := True\<rparr>, linux_machine]\<rparr>)
     = (Inr None, two_machines\<lparr>machines := [win_machine\<lparr>m_locked := True\<rparr>, linux_machine]\<rparr>)"
proof -
  let ?busy = "two_machines\<lparr>machines := [win_machine\<lparr>m_locked := True\<rparr>, linux_machine]\<rparr>"
  note ds = two_machines_def empty_db_def win_machine_def linux_machine_def meets_def
    truthy_def no_faults_def
  have 1: "lock_machine no_faults noon (Some ''win7x64'') (Some ''windows'') [] two_machines
     = (Inr None, log_msg ERROR ''You can select machine only by label or by platform.''
                    two_machines)"
    using lock_machine_refusals [of "Some ''win7x64''" "Some ''windows''" "[]" no_faults noon
        two_machines]
    by (simp add: lock_machine_def truthy_def)
  have 2: "lock_machine no_faults noon (Some ''win7x64'') None [''x64''] two_machines
     = (Inr None, log_msg ERROR ''You can select machine only by label or by tags.''
                    two_machines)"
    using lock_machine_refusals [of "Some ''win7x64''" None "[''x64'']" no_faults noon
        two_machines]
    by (simp add: lock_machine_def truthy_def)
  have 3: "lock_machine no_faults noon None (Some ''darwin'') [] two_machines
     = (Inl (CuckooOperationalError ''No machines match selection criteria.''), two_machines)"
    using lock_machine_refusals [of None "Some ''darwin''" "[]" no_faults noon two_machines]
    by (simp add: ds)
  have 4: "lock_machine no_faults noon None (Some ''windows'') [] ?busy = (Inr None, ?busy)"
    using lock_machine_refusals [of None "Some ''windows''" "[]" no_faults noon ?busy]
    by (simp add: ds)
  from 1 2 3 4 show ?thesis by simp
qed



subsection \<open>fetch\<close>













subsection \<open>add\<close>







text \<open>The store after the clock has been resolved.\<close>

lemma add_task_cases:
  "add_task F now ob target sid tags started a d = (r, d') \<Longrightarrow>
   (r = Inl SQLAlchemyError \<and> d' = d) \<or>
   (r = Inr None \<and> F TaskCommit \<and> tasks d' = tasks d \<and> samples d' = samples d \<and>
      machines d' = machines d \<and>
      logged d' = logged d @ (if snd (resolve_clock (a_clock a)) then [(WARNING, clock_warning)] else [])
                  @ [(DEBUG, ''Database error adding task'')]) \<or>
   (r = Inr (Some (next_id (map t_id (tasks d)))) \<and>
      tasks d' = tasks d @ [new_task (next_id (map t_id (tasks d))) now ob target sid tags started a] \<and>
      samples d' = samples d \<and> machines d' = machines d \<and>
      logged d' = logged d @ (if snd (resolve_clock (a_clock a)) then [(WARNING, clock_warning)] else []))"
  by (auto simp: add_task_def Let_def log_msg_def new_task_def split: if_splits)

lemma add_sample_cases:
  "add_sample F fi parent d = (r, d') \<Longrightarrow>
   tasks d' = tasks d \<and> machines d' = machines d \<and>
   ((\<exists>msg. r = Inl (Inr None) \<and> samples d' = samples d \<and> logged d' = logged d @ [(DEBUG, msg)]) \<or>
    (r = Inl (Inl AttributeError) \<and> d' = d) \<or>
    (\<exists>sid. r = Inr sid \<and> logged d' = logged d \<and>
       (samples d' = samples d \<or>
        \<not> integrity_error (new_sample fi parent d) d \<and>
        samples d' = samples d @ [new_sample fi parent d])))"
  by (auto simp: add_sample_def Let_def log_msg_def split: if_splits option.splits)


lemma add_file_failure:
  assumes "add_file F fs now ob p started a d = (Inr None, d')"
  shows "tasks d' = tasks d \<and> machines d' = machines d \<and>
     (\<exists>msg. logged d' = logged d @ [(DEBUG, msg)] \<or>
            logged d' = logged d @ [(WARNING, clock_warning), (DEBUG, msg)]) \<and>
     (samples d' = samples d \<or>
      (\<exists>fi. fs p = Some fi \<and> F TaskCommit \<and>
         \<not> integrity_error (new_sample fi (a_sample_parent_id a) d) d \<and>
         samples d' = samples d @ [new_sample fi (a_sample_parent_id a) d]))"
proof -
  from assms obtain fi where fi: "fs p = Some fi"
    by (cases "fs p") (auto simp: add_file_def)
  obtain rs d1 where s: "add_sample F fi (a_sample_parent_id a) d = (rs, d1)"
    by (cases "add_sample F fi (a_sample_parent_id a) d")
  note sc = add_sample_cases [OF s]
  show ?thesis
  proof (cases rs)
    case (Inl r)
    with assms fi s have "r = Inr None" "d' = d1" by (auto simp: add_file_def)
    with Inl sc show ?thesis by auto
  next
    case (Inr sid)
    with assms fi s
    have t: "add_task F now ob p (Some sid) (force_64_bit (f_type fi) (a_machine a) (a_tags a))
              started a d1 = (Inr None, d')"
      by (auto simp: add_file_def)
    from sc Inr
    have d1: "tasks d1 = tasks d" "machines d1 = machines d" "logged d1 = logged d"
      "samples d1 = samples d \<or>
        \<not> integrity_error (new_sample fi (a_sample_parent_id a) d) d \<and>
        samples d1 = samples d @ [new_sample fi (a_sample_parent_id a) d]"
      by auto
    from add_task_cases [OF t] d1 fi show ?thesis by auto
  qed
qed


lemma add_failure:
  assumes "add F fs now ob a d = (Inr None, d')"
  shows "tasks d' = tasks d \<and> machines d' = machines d \<and>
     (\<exists>msg. logged d' = logged d @ [(DEBUG, msg)] \<or>
            logged d' = logged d @ [(WARNING, clock_warning), (DEBUG, msg)]) \<and>
     (samples d' = samples d \<or>
      (\<exists>p fi. obj_path ob = Some p \<and> fs p = Some fi \<and> F TaskCommit \<and>
         \<not> integrity_error (new_sample fi (a_sample_parent_id a) d) d \<and>
         samples d' = samples d @ [new_sample fi (a_sample_parent_id a) d]))"
proof (cases ob)
  case (URL u)
  with assms have "add_task F now ob u None (a_tags a) None a d = (Inr None, d')"
    by (simp add: add_def)
  from add_task_cases [OF this] show ?thesis by auto
next
  case (File p)
  with assms have "add_file F fs now ob p None a d = (Inr None, d')" by (simp add: add_def)
  from add_file_failure [OF this] File show ?thesis by (auto simp: obj_path_def)
next
  case (PCAP p)
  with assms have "add_file F fs now ob p (Some now) a d = (Inr None, d')" by (simp add: add_def)
  from add_file_failure [OF this] PCAP show ?thesis by (auto simp: obj_path_def)
next
  case (Static p)
  with assms have "add_file F fs now ob p (Some now) a d = (Inr None, d')" by (simp add: add_def)
  from add_file_failure [OF this] Static show ?thesis by (auto simp: obj_path_def)
qed













subsection \<open>Failures of add\<close>

text \<open>
  C9, as the specification states it, fails: add commits the Sample row in a transaction
  of its own (line 973) before it builds the task, so when the commit of the task fails
  and add returns None, the rollback undoes the task only and the Sample row stays.
\<close>

theorem add_failure_keeps_sample:
  "fst (add task_commit_fails one_file noon (File ''/tmp/a.exe'') defaults empty_db) = Inr None \<and>
   samples empty_db = [] \<and>
   map s_sha256 (samples (snd (add task_commit_fails one_file noon (File ''/tmp/a.exe'')
                                 defaults empty_db))) = [''sha256-of-a'']"
  by (simp add: add_def add_file_def add_sample_def add_task_def new_sample_def
      integrity_error_def one_file_def exe_info_def task_commit_fails_def defaults_def
      empty_db_def Let_def log_msg_def)

text \<open>
  C9, amended: whenever add returns None, a debug message has been logged (after the
  clock warning, if there was one), and the tasks and machines tables are as they were
  before the call. The samples table is as it was too, except when the failure is at
  the commit of the task and the sample of the file was new: then the Sample row that
  the same call inserted and committed is still there.
\<close>

theorem add_failure_rolls_back_task:
  assumes "add F fs now ob a d = (Inr None, d')"
  shows "tasks d' = tasks d \<and> machines d' = machines d \<and>
     (\<exists>msg. logged d' = logged d @ [(DEBUG, msg)] \<or>
            logged d' = logged d @ [(WARNING, clock_warning), (DEBUG, msg)]) \<and>
     (samples d' = samples d \<or>
      (\<exists>p fi. obj_path ob = Some p \<and> fs p = Some fi \<and> F TaskCommit \<and>
         \<not> integrity_error (new_sample fi (a_sample_parent_id a) d) d \<and>
         samples d' = samples d @ [new_sample fi (a_sample_parent_id a) d]))"
  using assms by (rule add_failure)

theorem add_failure_rolls_back_task_witness:
  "fst (add task_commit_fails one_file noon (URL ''http://example.org/'') defaults
          (empty_db\<lparr>tasks := [url_task]\<rparr>)) = Inr None \<and>
   tasks (snd (add task_commit_fails one_file noon (URL ''http://example.org/'') defaults
                 (empty_db\<lparr>tasks := [url_task]\<rparr>))) = [url_task] \<and>
   samples (snd (add task_commit_fails one_file noon (URL ''http://example.org/'') defaults
                   (empty_db\<lparr>tasks := [url_task]\<rparr>))) = []"
proof -
  let ?d = "empty_db\<lparr>tasks := [url_task]\<rparr>"
  obtain d' where r: "add task_commit_fails one_file noon (URL ''http://example.org/'')
                        defaults ?d = (Inr None, d')"
    by (simp add: add_def add_task_def task_commit_fails_def defaults_def Let_def
        tag_names_def)
  from add_failure_rolls_back_task [OF r]
  have "tasks d' = [url_task]" "samples d' = []"
    by (simp_all add: empty_db_def obj_path_def)
  with r show ?thesis by simp
qed


subsection \<open>The samples table\<close>

lemma twins_registered_rows:
  "map (\<lambda>s. (s_id s, s_md5 s, s_sha256 s)) (samples twins_registered)
     = [(1, ''md5-shared'', ''sha256-of-first''), (2, ''md5-shared'', ''sha256-of-second'')]"
  by (simp add: twins_registered_def register_sample_def obj_path_def twin_files_def
      first_info_def second_info_def new_sample_def integrity_error_def no_faults_def
      empty_db_def Let_def next_id_def truthy_def nat_truthy_def)

lemma register_sample_samples:
  "register_sample F fs ob d = (r, d') \<Longrightarrow>
   samples d' = samples d \<or>
   (\<exists>fi. \<not> integrity_error (new_sample fi None d) d \<and>
         samples d' = samples d @ [new_sample fi None d])"
  by (auto simp: register_sample_def Let_def log_msg_def split: option.splits if_splits)

lemma register_sample_sha256_unique:
  assumes "distinct (map s_sha256 (samples d))"
  shows "distinct (map s_sha256 (samples (snd (register_sample F fs ob d))))"
proof -
  obtain r d' where rd: "register_sample F fs ob d = (r, d')"
    by (cases "register_sample F fs ob d")
  from register_sample_samples [OF rd] assms have "distinct (map s_sha256 (samples d'))"
    by (auto simp: integrity_error_def)
  with rd show ?thesis by simp
qed

lemma add_file_sha256_unique:
  assumes "distinct (map s_sha256 (samples d))"
  shows "distinct (map s_sha256 (samples (snd (add_file F fs now ob p st a d))))"
proof (cases "fs p")
  case None
  with assms show ?thesis by (simp add: add_file_def)
next
  case (Some fi)
  obtain rs d1 where s: "add_sample F fi (a_sample_parent_id a) d = (rs, d1)"
    by (cases "add_sample F fi (a_sample_parent_id a) d")
  from add_sample_cases [OF s] assms have d1: "distinct (map s_sha256 (samples d1))"
    by (auto simp: integrity_error_def)
  show ?thesis
  proof (cases rs)
    case (Inl r0)
    with Some s d1 show ?thesis by (simp add: add_file_def)
  next
    case (Inr sid)
    obtain r d' where t: "add_task F now ob p (Some sid)
        (force_64_bit (f_type fi) (a_machine a) (a_tags a)) st a d1 = (r, d')"
      by (cases "add_task F now ob p (Some sid)
        (force_64_bit (f_type fi) (a_machine a) (a_tags a)) st a d1")
    from add_task_cases [OF t] have "samples d' = samples d1" by auto
    with Some s Inr t d1 show ?thesis by (simp add: add_file_def)
  qed
qed

lemma add_sha256_unique:
  assumes "distinct (map s_sha256 (samples d))"
  shows "distinct (map s_sha256 (samples (snd (add F fs now ob a d))))"
proof (cases ob)
  case (URL u)
  obtain r d' where t: "add_task F now ob u None (a_tags a) None a d = (r, d')"
    by (cases "add_task F now ob u None (a_tags a) None a d")
  from add_task_cases [OF t] have "samples d' = samples d" by auto
  with URL t assms show ?thesis by (simp add: add_def)
qed (simp_all add: add_def add_file_sha256_unique [OF assms])

text \<open>
  When no row of the table shares the MD5 of the file without sharing its SHA-256, the
  row that the re-read returns is the row that made the insert fail.
\<close>

lemma register_sample_reread:
  assumes ob: "obj_path ob = Some p" "fs p = Some fi"
    and nf: "\<not> F SampleCommit" "\<not> F SampleReread"
    and uniq: "distinct (map s_sha256 (samples d))"
    and row: "s \<in> set (samples d)" "s_sha256 s = f_sha256 fi" "s_md5 s = f_md5 fi"
    and md5: "\<forall>r \<in> set (samples d). s_md5 r = f_md5 fi \<longrightarrow> s_sha256 r = f_sha256 fi"
  shows "register_sample F fs ob d = (Inr (Some (s_id s)), d)"
proof -
  have ie: "integrity_error (new_sample fi None d) d"
    using row by (auto simp: integrity_error_def new_sample_def) (metis image_eqI)
  from row have "filter (\<lambda>r. s_md5 r = f_md5 fi) (samples d) \<noteq> []"
    by (auto simp: filter_empty_conv)
  then obtain r where r: "sample_by_md5 (f_md5 fi) d = Some r"
    by (cases "filter (\<lambda>r. s_md5 r = f_md5 fi) (samples d)")
       (auto simp: sample_by_md5_def first_def)
  then have "r \<in> set (samples d)" "s_md5 r = f_md5 fi"
    using first_filter_Some [of "\<lambda>r. s_md5 r = f_md5 fi" "samples d" r]
    by (simp_all add: sample_by_md5_def)
  with md5 row have "s_sha256 r = s_sha256 s" by simp
  with uniq \<open>r \<in> set (samples d)\<close> row(1) have "r = s"
    by (metis distinct_map inj_onD)
  with ob nf ie r show ?thesis by (simp add: register_sample_def Let_def)
qed

text \<open>
  C3: the index on sha256 is unique, so the table never holds two rows for the same
  content (the lemmas above). But the row that a caller gets after the uniqueness
  violation is read by MD5, not by the SHA-256 that made the insert fail: with two
  files whose MD5 digests collide in the table, a second submission of the second file,
  by register_sample or by add, gets the id of the row of the first file.
\<close>

theorem reread_by_md5_wrong_row:
  "map (\<lambda>s. (s_id s, s_md5 s, s_sha256 s)) (samples twins_registered)
     = [(1, ''md5-shared'', ''sha256-of-first''), (2, ''md5-shared'', ''sha256-of-second'')] \<and>
   f_sha256 second_info = ''sha256-of-second'' \<and>
   register_sample no_faults twin_files (File ''/tmp/second.bin'') twins_registered
     = (Inr (Some 1), twins_registered) \<and>
   map t_sample_id (tasks (snd (add no_faults twin_files noon (File ''/tmp/second.bin'')
                                  defaults twins_registered))) = [Some 1]"
  by (simp add: twins_registered_def register_sample_def obj_path_def twin_files_def
      first_info_def second_info_def new_sample_def integrity_error_def no_faults_def
      empty_db_def Let_def next_id_def truthy_def nat_truthy_def sample_by_md5_def first_def
      add_def add_file_def add_sample_def add_task_def new_task_def defaults_def
      force_64_bit_def resolve_clock_def log_msg_def)


subsection \<open>reschedule\<close>

lemma add_path_makes_file_task:
  "add_path no_faults one_file noon (Some ''/tmp/a.exe'') defaults empty_db
     = (Inr (Some 1), empty_db\<lparr>tasks := [file_task], samples := [new_sample exe_info None empty_db]\<rparr>)"
  by (simp add: add_path_def add_def add_file_def add_sample_def add_task_def new_task_def
      new_sample_def integrity_error_def one_file_def exe_info_def no_faults_def defaults_def
      empty_db_def file_task_def url_task_def Let_def log_msg_def resolve_clock_def
      force_64_bit_def is_pe32plus_def truthy_def tag_names_def int_or_def next_id_def
      class_name_lower_def nat_truthy_def)
















end
